theory Spec2Isabelle
  imports Complex_Main "HOL-Library.Sublist"
begin

section \<open>Notification queue (utils/notifications.py)\<close>

subsection \<open>Settings, jobs, transport and the observable world\<close>

text \<open>
  The settings object of \<^verbatim>\<open>utils.settings\<close> is read but never written by the code under
  study, so it is a parameter of every operation. A setting that may be unset is an
  option; \<open>truthy\<close> is Python's truth test on it (\<^verbatim>\<open>None\<close> and the empty string are false).
\<close>

record template =
  subject :: string
  message :: string

record settings =
  API_SMTP_HOST :: "string option"
  API_SMTP_PORT :: int
  API_SMTP_USERNAME :: "string option"
  API_SMTP_PASSWORD :: "string option"
  API_SMTP_SENDER :: string
  NOTIFICATION_MAIL_UPDATED :: template
  NOTIFICATION_MAIL_TRANSCRIPTION_FINISHED :: template
  NOTIFICATION_MAIL_TRANSCRIPTION_FAILED :: template
  NOTIFICATION_MAIL_TRANSCRIPTION_DELETED :: template
  NOTIFICATION_MAIL_TRANSCRIPTION_TO_BE_DELETED :: template
  NOTIFICATION_MAIL_NEW_USER_CREATED :: template
  NOTIFICATION_MAIL_ACCOUNT_ACTIVATED :: template
  NOTIFICATION_MAIL_QUOTA_ALERT :: template
  NOTIFICATION_MAIL_GROUP_QUOTA_ALERT :: template
  NOTIFICATION_MAIL_WEEKLY_USAGE_REPORT :: template

fun truthy :: "string option \<Rightarrow> bool" where
  "truthy None = False"
| "truthy (Some s) = (s \<noteq> [])"

text \<open>A queued notification: the dict with keys \<^verbatim>\<open>to_emails\<close>, \<^verbatim>\<open>subject\<close>, \<^verbatim>\<open>message\<close>.\<close>

record notification =
  n_to_emails :: "string list"
  n_subject :: string
  n_message :: string

text \<open>
  The calls the code makes on \<^verbatim>\<open>smtplib\<close>, with their arguments. The mail relay is the
  environment: a \<open>transport\<close> answers a call, given the calls made before it, with the
  exception it raises (\<open>None\<close> when the call returns) and the time the call takes.
\<close>

datatype smtp_call =
    SMTP "string option" int
  | Starttls
  | Login "string option" "string option"
  | Sendmail string "string list" string

type_synonym transport = "smtp_call list \<Rightarrow> smtp_call \<Rightarrow> string option \<times> real"

datatype level = INFO | WARNING | ERROR

record world =
  queue :: "notification list"
  calls :: "smtp_call list"
  log :: "(level \<times> string) list"
  clock :: real
  timers :: "real list"

text \<open>
  \<open>queue\<close> is the deque (head first), \<open>calls\<close> the transport calls made so far (oldest
  first), \<open>log\<close> the logger's records, \<open>clock\<close> the current time in seconds and
  \<open>timers\<close> the times at which the armed \<^verbatim>\<open>threading.Timer\<close>s fire.
\<close>

definition logger :: "level \<Rightarrow> string \<Rightarrow> world \<Rightarrow> world" where
  "logger lv msg w = w\<lparr>log := log w @ [(lv, msg)]\<rparr>"

text \<open>\<^verbatim>\<open>sep.join(xs)\<close>\<close>

fun join :: "string \<Rightarrow> string list \<Rightarrow> string" where
  "join sep [] = []"
| "join sep [x] = x"
| "join sep (x # y # ys) = x @ sep @ join sep (y # ys)"

subsection \<open>\<^verbatim>\<open>Notifications.add\<close>\<close>

definition add :: "settings \<Rightarrow> string list \<Rightarrow> string \<Rightarrow> string \<Rightarrow> world \<Rightarrow> world" where
  "add cfg to_emails subj msg w =
     (if \<not> truthy (API_SMTP_HOST cfg) then
        logger WARNING ''SMTP host is not configured. Email notifications will not be sent.'' w
      else
        w\<lparr>queue := queue w @ [\<lparr>n_to_emails = to_emails, n_subject = subj, n_message = msg\<rparr>]\<rparr>)"

subsection \<open>\<^verbatim>\<open>Notifications.__notification_send_email\<close>\<close>

text \<open>
  One transport call: it is recorded, the clock advances by the time it takes, and the
  exception it raises (if any) is returned with the world.
\<close>

definition smtp :: "transport \<Rightarrow> smtp_call \<Rightarrow> world \<Rightarrow> string option \<times> world" where
  "smtp tr c w =
     (fst (tr (calls w) c),
      w\<lparr>calls := calls w @ [c], clock := clock w + snd (tr (calls w) c)\<rparr>)"

definition mail_to_send :: "settings \<Rightarrow> string \<Rightarrow> string \<Rightarrow> string \<Rightarrow> string" where
  "mail_to_send cfg email subj msg =
     ''From: Sunet Scribe <'' @ API_SMTP_SENDER cfg @ ''>'' @ [CHR 0x0A] @
     ''To: '' @ email @ [CHR 0x0A] @
     ''Subject: '' @ subj @ [CHR 0x0A, CHR 0x0A] @ msg"

text \<open>
  Statements of a \<^verbatim>\<open>try\<close> block run in sequence until one raises: \<open>andthen r f\<close> continues
  with \<open>f\<close> when the step \<open>r\<close> returned, and stops with its exception otherwise.
\<close>

definition andthen ::
  "string option \<times> world \<Rightarrow> (world \<Rightarrow> string option \<times> world) \<Rightarrow> string option \<times> world" where
  "andthen r f = (case r of (Some e, w) \<Rightarrow> (Some e, w) | (None, w) \<Rightarrow> f w)"

text \<open>
  The \<^verbatim>\<open>for email in to_emails\<close> loop of the \<^verbatim>\<open>try\<close> block; the sixth argument is the
  part of \<^verbatim>\<open>to_emails\<close> still to visit. Each iteration builds the message, calls
  \<^verbatim>\<open>server.sendmail(sender, to_emails, mail_to_send)\<close> and logs.
\<close>

fun send_loop ::
  "transport \<Rightarrow> settings \<Rightarrow> string list \<Rightarrow> string \<Rightarrow> string \<Rightarrow> string list \<Rightarrow> world
     \<Rightarrow> string option \<times> world" where
  "send_loop tr cfg to_emails subj msg [] w = (None, w)"
| "send_loop tr cfg to_emails subj msg (email # rest) w =
     andthen
       (smtp tr (Sendmail (API_SMTP_SENDER cfg) to_emails (mail_to_send cfg email subj msg)) w)
       (\<lambda>w1. send_loop tr cfg to_emails subj msg rest
                (logger INFO (''Email sent to '' @ join '', '' to_emails) w1))"

text \<open>The body of the \<^verbatim>\<open>try\<close> block: session, STARTTLS, login, then the loop.\<close>

definition try_send ::
  "transport \<Rightarrow> settings \<Rightarrow> string list \<Rightarrow> string \<Rightarrow> string \<Rightarrow> world \<Rightarrow> string option \<times> world" where
  "try_send tr cfg to_emails subj msg w =
     andthen (smtp tr (SMTP (API_SMTP_HOST cfg) (API_SMTP_PORT cfg)) w) (\<lambda>w1.
     andthen (smtp tr Starttls w1) (\<lambda>w2.
     andthen (smtp tr (Login (API_SMTP_USERNAME cfg) (API_SMTP_PASSWORD cfg)) w2) (\<lambda>w3.
     send_loop tr cfg to_emails subj msg to_emails w3)))"

text \<open>The \<^verbatim>\<open>except Exception as e\<close> clause logs the error and returns normally.\<close>

definition notification_send_email ::
  "transport \<Rightarrow> settings \<Rightarrow> string list \<Rightarrow> string \<Rightarrow> string \<Rightarrow> world \<Rightarrow> world" where
  "notification_send_email tr cfg to_emails subj msg w =
     (case try_send tr cfg to_emails subj msg w of
        (None, w') \<Rightarrow> w'
      | (Some e, w') \<Rightarrow>
          logger ERROR (''Error sending email to '' @ join '', '' to_emails @ '': '' @ e) w')"

text \<open>
  Sending reads and writes \<open>calls\<close>, \<open>log\<close> and \<open>clock\<close> only: it commutes with any
  update of the deque.
\<close>

lemma logger_queue_update: "logger lv m (w\<lparr>queue := q\<rparr>) = (logger lv m w)\<lparr>queue := q\<rparr>"
  by (simp add: logger_def)

lemma smtp_queue_update:
  "smtp tr c (w\<lparr>queue := q\<rparr>) = apsnd (\<lambda>v. v\<lparr>queue := q\<rparr>) (smtp tr c w)"
  by (simp add: smtp_def)

lemma andthen_apsnd:
  assumes "\<And>v. f (U v) = apsnd U (f v)"
  shows "andthen (apsnd U r) f = apsnd U (andthen r f)"
  using assms by (cases r) (auto simp: andthen_def split: option.splits)

lemma send_loop_queue_update:
  "send_loop tr cfg tos subj msg todo (w\<lparr>queue := q\<rparr>) =
     apsnd (\<lambda>v. v\<lparr>queue := q\<rparr>) (send_loop tr cfg tos subj msg todo w)"
proof (induction todo arbitrary: w)
  case Nil
  then show ?case by simp
next
  case (Cons email rest)
  show ?case
    by (simp add: smtp_queue_update)
       (rule andthen_apsnd, simp add: logger_queue_update Cons.IH)
qed

lemma try_send_queue_update:
  "try_send tr cfg tos subj msg (w\<lparr>queue := q\<rparr>) =
     apsnd (\<lambda>v. v\<lparr>queue := q\<rparr>) (try_send tr cfg tos subj msg w)"
  unfolding try_send_def
  by (simp add: smtp_queue_update send_loop_queue_update andthen_apsnd)

lemma notification_send_email_queue_update:
  "notification_send_email tr cfg tos subj msg (w\<lparr>queue := q\<rparr>) =
     (notification_send_email tr cfg tos subj msg w)\<lparr>queue := q\<rparr>"
  unfolding notification_send_email_def try_send_queue_update
  by (cases "try_send tr cfg tos subj msg w")
     (simp add: logger_queue_update split: option.splits)

text \<open>
  Frame: an observation \<open>g\<close> of the world that the transport calls and the logger's
  records do not change is unchanged by a delivery attempt.
\<close>

lemma frame_andthen:
  assumes "g (snd r) = x" and "\<And>v. g v = x \<Longrightarrow> g (snd (f v)) = x"
  shows "g (snd (andthen r f)) = x"
  using assms by (cases r) (auto simp: andthen_def split: option.splits)

lemma frame_send_loop:
  assumes c: "\<And>v a b m. g (snd (smtp tr (Sendmail a b m) v)) = g v"
    and l: "\<And>v m. g (logger INFO m v) = g v"
  shows "g (snd (send_loop tr cfg tos subj msg todo w)) = g w"
proof (induction todo arbitrary: w)
  case Nil
  then show ?case by simp
next
  case (Cons email rest)
  show ?case
    by (simp, rule frame_andthen [where g = g]) (simp_all add: c Cons.IH l)
qed

lemma frame_try_send:
  assumes c: "\<And>v c. g (snd (smtp tr c v)) = g v"
    and l: "\<And>v m. g (logger INFO m v) = g v"
  shows "g (snd (try_send tr cfg tos subj msg w)) = g w"
  unfolding try_send_def
  by (intro frame_andthen [where g = g])
     (simp_all add: c frame_send_loop [of g, OF c l])

lemma frame_notification_send_email:
  assumes c: "\<And>v c. g (snd (smtp tr c v)) = g v"
    and l: "\<And>v lv m. g (logger lv m v) = g v"
  shows "g (notification_send_email tr cfg tos subj msg w) = g w"
  using frame_try_send [of g tr cfg tos subj msg w, OF c l]
  unfolding notification_send_email_def
  by (cases "try_send tr cfg tos subj msg w") (simp add: l split: option.splits)

lemma queue_notification_send_email [simp]:
  "queue (notification_send_email tr cfg tos subj msg w) = queue w"
  by (rule frame_notification_send_email [where g = queue]) (simp_all add: smtp_def logger_def)

lemma timers_notification_send_email [simp]:
  "timers (notification_send_email tr cfg tos subj msg w) = timers w"
  by (rule frame_notification_send_email [where g = timers]) (simp_all add: smtp_def logger_def)

subsection \<open>The background handler\<close>

text \<open>
  The test guarding the delivery attempt in the handler:
  \<^verbatim>\<open>API_SMTP_HOST and API_SMTP_USERNAME and API_SMTP_PASSWORD\<close>.
\<close>

definition credentials :: "settings \<Rightarrow> bool" where
  "credentials cfg \<longleftrightarrow>
     truthy (API_SMTP_HOST cfg) \<and> truthy (API_SMTP_USERNAME cfg) \<and> truthy (API_SMTP_PASSWORD cfg)"

text \<open>One iteration of the \<^verbatim>\<open>while\<close> loop on a popped notification.\<close>

definition deliver :: "transport \<Rightarrow> settings \<Rightarrow> notification \<Rightarrow> world \<Rightarrow> world" where
  "deliver tr cfg n w =
     (if credentials cfg then
        notification_send_email tr cfg (n_to_emails n) (n_subject n) (n_message n) w
      else w)"

text \<open>
  \<^verbatim>\<open>while len(self.__queue) > 0\<close>: \<^verbatim>\<open>popleft\<close> removes the head of the deque, then the
  iteration runs on it.
\<close>

function drain :: "transport \<Rightarrow> settings \<Rightarrow> world \<Rightarrow> world" where
  "drain tr cfg w =
     (if length (queue w) > 0 then
        drain tr cfg (deliver tr cfg (hd (queue w)) (w\<lparr>queue := tl (queue w)\<rparr>))
      else w)"
  by pat_completeness auto
termination
  by (relation "measure (\<lambda>(tr, cfg, w). length (queue w))") (auto simp: deliver_def)

declare drain.simps [simp del]

text \<open>
  The handler arms the next timer first (\<^verbatim>\<open>threading.Timer(3.0, handler).start()\<close>, due
  3.0 seconds from now), then runs the loop.
\<close>

definition handler :: "transport \<Rightarrow> settings \<Rightarrow> world \<Rightarrow> world" where
  "handler tr cfg w = drain tr cfg (w\<lparr>timers := timers w @ [clock w + 3.0]\<rparr>)"

text \<open>The loop, unfolded once on an empty and on a non-empty deque.\<close>

lemma drain_Nil: "queue w = [] \<Longrightarrow> drain tr cfg w = w"
  by (simp add: drain.simps)

lemma drain_Cons:
  "queue w = n # ns \<Longrightarrow> drain tr cfg w = drain tr cfg (deliver tr cfg n (w\<lparr>queue := ns\<rparr>))"
  by (subst drain.simps) simp

lemma deliver_queue_update:
  "deliver tr cfg n (w\<lparr>queue := q\<rparr>) = (deliver tr cfg n w)\<lparr>queue := q\<rparr>"
  by (simp add: deliver_def notification_send_email_queue_update)

lemma queue_deliver [simp]: "queue (deliver tr cfg n w) = queue w"
  by (simp add: deliver_def)

subsection \<open>Drain cycle as a fold\<close>

lemma foldl_deliver_queue_update:
  "foldl (\<lambda>v n. deliver tr cfg n v) (v\<lparr>queue := q\<rparr>) xs =
     (foldl (\<lambda>v n. deliver tr cfg n v) v xs)\<lparr>queue := q\<rparr>"
  by (induction xs arbitrary: v) (simp_all add: deliver_queue_update)

lemma drain_foldl:
  "drain tr cfg w = (foldl (\<lambda>v n. deliver tr cfg n v) w (queue w))\<lparr>queue := []\<rparr>"
proof (induction "queue w" arbitrary: w)
  case Nil
  then show ?case by (simp add: drain_Nil [OF Nil.hyps [symmetric]])
next
  case (Cons n ns)
  let ?w1 = "deliver tr cfg n (w\<lparr>queue := ns\<rparr>)"
  have "drain tr cfg w = drain tr cfg ?w1"
    using Cons.hyps(2) by (simp add: drain_Cons)
  also have "\<dots> = (foldl (\<lambda>v n. deliver tr cfg n v) ?w1 ns)\<lparr>queue := []\<rparr>"
    using Cons.hyps(1) [of ?w1] by simp
  also have "\<dots> = (foldl (\<lambda>v n. deliver tr cfg n v) (deliver tr cfg n w) ns)\<lparr>queue := []\<rparr>"
    by (simp add: deliver_queue_update foldl_deliver_queue_update)
  finally show ?case
    using Cons.hyps(2) [symmetric] by simp
qed

text \<open>A sequence of \<^verbatim>\<open>add\<close> calls, one per notification, in list order.\<close>

definition enqueue :: "settings \<Rightarrow> notification list \<Rightarrow> world \<Rightarrow> world" where
  "enqueue cfg ns w = foldl (\<lambda>v n. add cfg (n_to_emails n) (n_subject n) (n_message n) v) w ns"

lemma enqueue_configured:
  "truthy (API_SMTP_HOST cfg) \<Longrightarrow> enqueue cfg ns w = w\<lparr>queue := queue w @ ns\<rparr>"
  unfolding enqueue_def
  by (induction ns arbitrary: w) (simp_all add: add_def)

lemma handler_foldl:
  "handler tr cfg w =
     (foldl (\<lambda>v n. deliver tr cfg n v) (w\<lparr>timers := timers w @ [clock w + 3]\<rparr>) (queue w))
       \<lparr>queue := []\<rparr>"
  unfolding handler_def by (subst drain_foldl) simp

lemma handler_enqueue:
  assumes "truthy (API_SMTP_HOST cfg)"
  shows "handler tr cfg (enqueue cfg ns w) =
     (foldl (\<lambda>v n. deliver tr cfg n v) (w\<lparr>timers := timers w @ [clock w + 3]\<rparr>) (queue w @ ns))
       \<lparr>queue := []\<rparr>"
proof -
  let ?w0 = "w\<lparr>timers := timers w @ [clock w + 3]\<rparr>"
  let ?q = "queue w @ ns"
  let ?e = "enqueue cfg ns w"
  have "?e\<lparr>timers := timers ?e @ [clock ?e + 3]\<rparr> = ?w0\<lparr>queue := ?q\<rparr>"
    unfolding enqueue_configured [OF assms] by (cases w) simp
  then have "handler tr cfg ?e = drain tr cfg (?w0\<lparr>queue := ?q\<rparr>)"
    unfolding handler_def by simp
  also have "\<dots> = (foldl (\<lambda>v n. deliver tr cfg n v) (?w0\<lparr>queue := ?q\<rparr>) ?q)\<lparr>queue := []\<rparr>"
    by (subst drain_foldl) simp
  also have "\<dots> = (foldl (\<lambda>v n. deliver tr cfg n v) ?w0 ?q)\<lparr>queue := []\<rparr>"
    by (simp only: foldl_deliver_queue_update) simp
  finally show ?thesis .
qed

subsection \<open>Concrete inputs\<close>

text \<open>A configured relay, an idle process, and two jobs used to instantiate the theorems.\<close>

definition settings0 :: settings where
  "settings0 =
     \<lparr>API_SMTP_HOST = Some ''smtp.example.org'', API_SMTP_PORT = 587,
      API_SMTP_USERNAME = Some ''scribe'', API_SMTP_PASSWORD = Some ''secret'',
      API_SMTP_SENDER = ''noreply@example.org'',
      NOTIFICATION_MAIL_UPDATED =
        \<lparr>subject = ''Verify'', message = ''Please verify your address''\<rparr>,
      NOTIFICATION_MAIL_TRANSCRIPTION_FINISHED =
        \<lparr>subject = ''Finished'', message = ''Your transcription is ready''\<rparr>,
      NOTIFICATION_MAIL_TRANSCRIPTION_FAILED =
        \<lparr>subject = ''Failed'', message = ''Your transcription failed''\<rparr>,
      NOTIFICATION_MAIL_TRANSCRIPTION_DELETED =
        \<lparr>subject = ''Deleted'', message = ''Your job was deleted''\<rparr>,
      NOTIFICATION_MAIL_TRANSCRIPTION_TO_BE_DELETED =
        \<lparr>subject = ''Deletion'', message = ''Your job will be deleted''\<rparr>,
      NOTIFICATION_MAIL_NEW_USER_CREATED =
        \<lparr>subject = ''New user'', message = ''New user {username}''\<rparr>,
      NOTIFICATION_MAIL_ACCOUNT_ACTIVATED =
        \<lparr>subject = ''Activated'', message = ''Your account is active''\<rparr>,
      NOTIFICATION_MAIL_QUOTA_ALERT =
        \<lparr>subject = ''Quota alert'',
         message = ''{customer_name}: {usage_percent}% used, {blocks_purchased} blocks, {minutes_consumed}/{minutes_included} min, {remaining_minutes} left''\<rparr>,
      NOTIFICATION_MAIL_GROUP_QUOTA_ALERT =
        \<lparr>subject = ''Group quota alert'',
         message = ''{group_name}: {usage_percent}% of {quota_minutes}, {used_minutes} used, {remaining_minutes} left''\<rparr>,
      NOTIFICATION_MAIL_WEEKLY_USAGE_REPORT =
        \<lparr>subject = ''Weekly report'',
         message = ''{customer_name}: {total_users} users, {transcribed_files} files, {transcribed_minutes}+{transcribed_minutes_external} min, {blocks_consumed}/{blocks_purchased} blocks, {minutes_included} incl, {remaining_minutes} left, {overage_minutes} over''\<rparr>\<rparr>"

definition world0 :: world where
  "world0 = \<lparr>queue = [], calls = [], log = [], clock = 0, timers = []\<rparr>"

definition job1 :: notification where
  "job1 = \<lparr>n_to_emails = [''ada@example.org''], n_subject = ''Hello'', n_message = ''First''\<rparr>"

definition job2 :: notification where
  "job2 =
     \<lparr>n_to_emails = [''bob@example.org'', ''eve@example.org''], n_subject = ''Hi'',
      n_message = ''Second''\<rparr>"

subsection \<open>Enqueueing\<close>

text \<open>
  C5. When the SMTP host is not configured, \<^verbatim>\<open>add\<close> logs one warning, leaves the deque as it
  was and returns; when it is configured, \<^verbatim>\<open>add\<close> appends exactly one notification at the
  tail of the deque and logs nothing. Nothing else of the world changes in either case, and
  \<^verbatim>\<open>add\<close> has no raising branch.
\<close>

theorem add_enqueues_iff_host_configured:
  "add cfg to_emails subj msg w =
     (if truthy (API_SMTP_HOST cfg) then
        w\<lparr>queue := queue w @ [\<lparr>n_to_emails = to_emails, n_subject = subj, n_message = msg\<rparr>]\<rparr>
      else
        w\<lparr>log := log w @
          [(WARNING, ''SMTP host is not configured. Email notifications will not be sent.'')]\<rparr>)"
  by (simp add: add_def logger_def)

theorem add_enqueues_iff_host_configured_witness:
  "queue (add settings0 [''ada@example.org''] ''Hello'' ''First'' world0) = [job1] \<and>
   log (add settings0 [''ada@example.org''] ''Hello'' ''First'' world0) = [] \<and>
   queue (add (settings0\<lparr>API_SMTP_HOST := None\<rparr>) [''ada@example.org''] ''Hello'' ''First'' world0) = [] \<and>
   map fst (log (add (settings0\<lparr>API_SMTP_HOST := None\<rparr>) [''ada@example.org''] ''Hello'' ''First'' world0))
     = [WARNING]"
  using add_enqueues_iff_host_configured [of settings0 "[''ada@example.org'']" "''Hello''" "''First''" world0]
    add_enqueues_iff_host_configured
      [of "settings0\<lparr>API_SMTP_HOST := None\<rparr>" "[''ada@example.org'']" "''Hello''" "''First''" world0]
  by (simp add: settings0_def world0_def job1_def)

subsection \<open>Order of delivery\<close>

text \<open>
  C7. With the transport configured (host, user name and password set), a sequence of
  \<^verbatim>\<open>add\<close> calls followed by one run of the handler has the effect of delivery attempts made
  one after the other on the notifications in the order in which they were added (after
  those already waiting): the head of the deque is popped first, and the deque is empty
  afterwards.
\<close>

theorem handler_delivers_in_arrival_order:
  assumes "credentials cfg"
  shows "handler tr cfg (enqueue cfg ns w) =
     (foldl (\<lambda>v n. notification_send_email tr cfg (n_to_emails n) (n_subject n) (n_message n) v)
        (w\<lparr>timers := timers w @ [clock w + 3]\<rparr>) (queue w @ ns))\<lparr>queue := []\<rparr>"
proof -
  have host: "truthy (API_SMTP_HOST cfg)"
    using assms by (simp add: credentials_def)
  have "deliver tr cfg n v = notification_send_email tr cfg (n_to_emails n) (n_subject n) (n_message n) v"
    for n v
    using assms by (simp add: deliver_def)
  then show ?thesis
    by (simp add: handler_enqueue [OF host])
qed

definition accepting :: transport where
  "accepting = (\<lambda>h c. (None, 10))"

theorem handler_delivers_in_arrival_order_witness:
  "credentials settings0 \<and>
   map (\<lambda>c. case c of Sendmail s r m \<Rightarrow> r | _ \<Rightarrow> [])
     (calls (handler accepting settings0 (enqueue settings0 [job1, job2] world0))) =
     [[], [], [], [''ada@example.org''],
      [], [], [], [''bob@example.org'', ''eve@example.org''], [''bob@example.org'', ''eve@example.org'']]"
proof -
  have c: "credentials settings0"
    by (simp add: credentials_def settings0_def)
  show ?thesis
    using c handler_delivers_in_arrival_order [OF c, of accepting "[job1, job2]" world0]
    by (simp add: world0_def job1_def job2_def accepting_def notification_send_email_def
        try_send_def andthen_def smtp_def logger_def)
qed

subsection \<open>Failed deliveries\<close>

text \<open>
  Two observations of a run: the messages of the logger's ERROR records, and the number of
  transport sessions opened (calls of \<^verbatim>\<open>smtplib.SMTP(host, port)\<close>), one per delivery attempt.
\<close>

definition errors :: "(level \<times> string) list \<Rightarrow> string list" where
  "errors l = map snd (filter (\<lambda>x. fst x = ERROR) l)"

fun sessions :: "smtp_call list \<Rightarrow> nat" where
  "sessions [] = 0"
| "sessions (SMTP h p # cs) = Suc (sessions cs)"
| "sessions (c # cs) = sessions cs"

lemma sessions_append [simp]: "sessions (xs @ ys) = sessions xs + sessions ys"
  by (induction xs rule: sessions.induct) simp_all

lemma errors_append [simp]: "errors (xs @ ys) = errors xs @ errors ys"
  by (simp add: errors_def)

lemma errors_try_send:
  "errors (log (snd (try_send tr cfg tos subj msg w))) = errors (log w)"
  by (rule frame_try_send [where g = "\<lambda>v. errors (log v)"])
     (simp_all add: smtp_def logger_def errors_def)

lemma sessions_try_send:
  "sessions (calls (snd (try_send tr cfg tos subj msg w))) = Suc (sessions (calls w))"
  unfolding try_send_def
  by (intro frame_andthen [where g = "\<lambda>v. sessions (calls v)"]
        frame_send_loop [where g = "\<lambda>v. sessions (calls v)", THEN trans])
     (simp_all add: smtp_def logger_def)

lemma sessions_notification_send_email:
  "sessions (calls (notification_send_email tr cfg tos subj msg w)) = Suc (sessions (calls w))"
  using sessions_try_send [of tr cfg tos subj msg w]
  unfolding notification_send_email_def
  by (cases "try_send tr cfg tos subj msg w") (simp add: logger_def split: option.splits)

text \<open>
  A delivery attempt commutes with every change \<open>U\<close> of the world that the transport calls
  and the logger commute with (a change of the deque or of the timers).
\<close>

lemma send_loop_commute:
  assumes s: "\<And>c v. smtp tr c (U v) = apsnd U (smtp tr c v)"
    and l: "\<And>lv m v. logger lv m (U v) = U (logger lv m v)"
  shows "send_loop tr cfg tos subj msg todo (U w) = apsnd U (send_loop tr cfg tos subj msg todo w)"
proof (induction todo arbitrary: w)
  case Nil
  then show ?case by simp
next
  case (Cons email rest)
  show ?case
    by (simp add: s) (rule andthen_apsnd, simp add: l Cons.IH)
qed

lemma try_send_commute:
  assumes s: "\<And>c v. smtp tr c (U v) = apsnd U (smtp tr c v)"
    and l: "\<And>lv m v. logger lv m (U v) = U (logger lv m v)"
  shows "try_send tr cfg tos subj msg (U w) = apsnd U (try_send tr cfg tos subj msg w)"
  unfolding try_send_def
  by (simp add: s send_loop_commute [of tr U, OF s l] andthen_apsnd)

lemma notification_send_email_commute:
  assumes s: "\<And>c v. smtp tr c (U v) = apsnd U (smtp tr c v)"
    and l: "\<And>lv m v. logger lv m (U v) = U (logger lv m v)"
  shows "notification_send_email tr cfg tos subj msg (U w) =
    U (notification_send_email tr cfg tos subj msg w)"
  unfolding notification_send_email_def try_send_commute [of tr U, OF s l]
  by (cases "try_send tr cfg tos subj msg w") (simp add: l split: option.splits)

text \<open>
  The outcome of each delivery attempt of a run, in order: the exception the \<^verbatim>\<open>try\<close> block of
  the attempt raises (\<open>None\<close> when it raises none), the attempts being made one after the
  other from the world \<open>v\<close>.
\<close>

fun raised :: "transport \<Rightarrow> settings \<Rightarrow> notification list \<Rightarrow> world \<Rightarrow> string option list" where
  "raised tr cfg [] v = []"
| "raised tr cfg (n # ns) v =
     fst (try_send tr cfg (n_to_emails n) (n_subject n) (n_message n) v) #
     raised tr cfg ns (notification_send_email tr cfg (n_to_emails n) (n_subject n) (n_message n) v)"

lemma raised_commute:
  assumes s: "\<And>c v. smtp tr c (U v) = apsnd U (smtp tr c v)"
    and l: "\<And>lv m v. logger lv m (U v) = U (logger lv m v)"
  shows "raised tr cfg ns (U v) = raised tr cfg ns v"
  by (induction ns arbitrary: v)
     (simp_all add: try_send_commute [of tr U, OF s l]
        notification_send_email_commute [of tr U, OF s l])

text \<open>
  The outcomes depend neither on the timers nor on the deque: they are the same from the
  world in which the handler starts as from the worlds in which it pops.
\<close>

lemma raised_timers_update: "raised tr cfg ns (v\<lparr>timers := t\<rparr>) = raised tr cfg ns v"
  by (rule raised_commute [where U = "\<lambda>v. v\<lparr>timers := t\<rparr>"]) (simp_all add: smtp_def logger_def)

lemma raised_queue_update: "raised tr cfg ns (v\<lparr>queue := q\<rparr>) = raised tr cfg ns v"
  by (rule raised_commute [where U = "\<lambda>v. v\<lparr>queue := q\<rparr>"]) (simp_all add: smtp_def logger_def)

lemma errors_notification_send_email:
  assumes "fst (try_send tr cfg tos subj msg w) = Some e"
  shows "errors (log (notification_send_email tr cfg tos subj msg w)) =
    errors (log w) @ [''Error sending email to '' @ join '', '' tos @ '': '' @ e]"
  using assms errors_try_send [of tr cfg tos subj msg w]
  unfolding notification_send_email_def
  by (cases "try_send tr cfg tos subj msg w") (auto simp: logger_def errors_def)

lemma foldl_failing:
  assumes "None \<notin> set (raised tr cfg js v)"
  shows "errors (log (foldl (\<lambda>v n. notification_send_email tr cfg (n_to_emails n) (n_subject n) (n_message n) v) v js)) =
      errors (log v) @
      map2 (\<lambda>n e. ''Error sending email to '' @ join '', '' (n_to_emails n) @ '': '' @ e)
        js (map the (raised tr cfg js v))"
  using assms
proof (induction js arbitrary: v)
  case Nil
  then show ?case by simp
next
  case (Cons j js)
  let ?v1 = "notification_send_email tr cfg (n_to_emails j) (n_subject j) (n_message j) v"
  from Cons.prems obtain e where
    e: "fst (try_send tr cfg (n_to_emails j) (n_subject j) (n_message j) v) = Some e"
    by (cases "fst (try_send tr cfg (n_to_emails j) (n_subject j) (n_message j) v)") auto
  from Cons.prems have rest: "None \<notin> set (raised tr cfg js ?v1)"
    by simp
  show ?case
    using Cons.IH [OF rest] errors_notification_send_email [OF e] e by simp
qed

lemma foldl_sessions:
  "sessions (calls (foldl (\<lambda>v n. notification_send_email tr cfg (n_to_emails n) (n_subject n) (n_message n) v) v js)) =
     sessions (calls v) + length js"
  by (induction js arbitrary: v) (simp_all add: sessions_notification_send_email)


text \<open>
  C1. With the transport configured, let every delivery attempt of a run fail: the \<^verbatim>\<open>try\<close>
  block of each attempt raises, at whatever step (session, STARTTLS, login or a
  \<^verbatim>\<open>sendmail\<close>). After any sequence of \<^verbatim>\<open>add\<close> calls and one run of the handler the deque
  is empty; one session was opened per notification, so each was attempted once and none
  retried; and the handler returned with one ERROR record per notification, in order, made
  of the notification's recipients and the exception its attempt raised: the exceptions
  were caught, none left the loop.
\<close>

theorem failing_transport_drains_and_drops:
  assumes "credentials cfg"
    and "None \<notin> set (raised tr cfg (queue w @ ns) w)"
  shows "queue (handler tr cfg (enqueue cfg ns w)) = [] \<and>
    sessions (calls (handler tr cfg (enqueue cfg ns w))) =
      sessions (calls w) + length (queue w @ ns) \<and>
    errors (log (handler tr cfg (enqueue cfg ns w))) =
      errors (log w) @
      map2 (\<lambda>n e. ''Error sending email to '' @ join '', '' (n_to_emails n) @ '': '' @ e)
        (queue w @ ns) (map the (raised tr cfg (queue w @ ns) w))"
proof -
  let ?send = "\<lambda>v n. notification_send_email tr cfg (n_to_emails n) (n_subject n) (n_message n) v"
  let ?w0 = "w\<lparr>timers := timers w @ [clock w + 3]\<rparr>"
  have host: "truthy (API_SMTP_HOST cfg)"
    using assms(1) by (simp add: credentials_def)
  have "(\<lambda>v n. deliver tr cfg n v) = ?send"
    using assms(1) by (simp add: deliver_def fun_eq_iff)
  then have run: "handler tr cfg (enqueue cfg ns w) = (foldl ?send ?w0 (queue w @ ns))\<lparr>queue := []\<rparr>"
    by (simp add: handler_enqueue [OF host])
  have r: "raised tr cfg (queue w @ ns) ?w0 = raised tr cfg (queue w @ ns) w"
    by (rule raised_timers_update)
  have q: "queue (handler tr cfg (enqueue cfg ns w)) = []"
    unfolding run by simp
  have s: "sessions (calls (handler tr cfg (enqueue cfg ns w))) =
      sessions (calls w) + length (queue w @ ns)"
    unfolding run using foldl_sessions [of tr cfg ?w0 "queue w @ ns"] by simp
  have e: "errors (log (handler tr cfg (enqueue cfg ns w))) =
      errors (log w) @
      map2 (\<lambda>n e. ''Error sending email to '' @ join '', '' (n_to_emails n) @ '': '' @ e)
        (queue w @ ns) (map the (raised tr cfg (queue w @ ns) w))"
    unfolding run using foldl_failing [of tr cfg "queue w @ ns" ?w0] assms(2) by (simp add: r)
  from q s e show ?thesis by blast
qed

text \<open>A relay that accepts the session and the login and refuses every message.\<close>

definition rejecting :: transport where
  "rejecting = (\<lambda>h c. case c of
     Sendmail s r m \<Rightarrow> (Some ''Recipient address rejected'', 1)
   | _ \<Rightarrow> (None, 1))"

theorem failing_transport_drains_and_drops_witness:
  "credentials settings0 \<and>
   None \<notin> set (raised rejecting settings0 (queue world0 @ [job1, job2]) world0) \<and>
   queue (handler rejecting settings0 (enqueue settings0 [job1, job2] world0)) = [] \<and>
   sessions (calls (handler rejecting settings0 (enqueue settings0 [job1, job2] world0))) = 2 \<and>
   errors (log (handler rejecting settings0 (enqueue settings0 [job1, job2] world0))) =
     [''Error sending email to ada@example.org: Recipient address rejected'',
      ''Error sending email to bob@example.org, eve@example.org: Recipient address rejected'']"
proof -
  have c: "credentials settings0"
    by (simp add: credentials_def settings0_def)
  have r: "raised rejecting settings0 (queue world0 @ [job1, job2]) world0 =
      [Some ''Recipient address rejected'', Some ''Recipient address rejected'']"
    by (simp add: world0_def job1_def job2_def notification_send_email_def try_send_def
        andthen_def smtp_def rejecting_def logger_def)
  then have f: "None \<notin> set (raised rejecting settings0 (queue world0 @ [job1, job2]) world0)"
    by simp
  have l: "errors (log world0) = []"
    by (simp add: world0_def errors_def)
  have j: "queue world0 @ [job1, job2] = [job1, job2]"
    by (simp add: world0_def)
  have t: "map2 (\<lambda>n e. ''Error sending email to '' @ join '', '' (n_to_emails n) @ '': '' @ e)
      [job1, job2] [''Recipient address rejected'', ''Recipient address rejected''] =
     [''Error sending email to ada@example.org: Recipient address rejected'',
      ''Error sending email to bob@example.org, eve@example.org: Recipient address rejected'']"
    by (simp add: job1_def job2_def)
  note run = failing_transport_drains_and_drops [OF c f]
  have q: "queue (handler rejecting settings0 (enqueue settings0 [job1, job2] world0)) = []"
    by (rule run [THEN conjunct1])
  have "sessions (calls (handler rejecting settings0 (enqueue settings0 [job1, job2] world0))) =
      sessions (calls world0) + length (queue world0 @ [job1, job2])"
    by (rule run [THEN conjunct2, THEN conjunct1])
  then have s: "sessions (calls (handler rejecting settings0 (enqueue settings0 [job1, job2] world0))) = 2"
    by (simp add: world0_def)
  have "errors (log (handler rejecting settings0 (enqueue settings0 [job1, job2] world0))) =
      errors (log world0) @
      map2 (\<lambda>n e. ''Error sending email to '' @ join '', '' (n_to_emails n) @ '': '' @ e)
        (queue world0 @ [job1, job2])
        (map the (raised rejecting settings0 (queue world0 @ [job1, job2]) world0))"
    by (rule run [THEN conjunct2, THEN conjunct2])
  then have e: "errors (log (handler rejecting settings0 (enqueue settings0 [job1, job2] world0))) =
     [''Error sending email to ada@example.org: Recipient address rejected'',
      ''Error sending email to bob@example.org, eve@example.org: Recipient address rejected'']"
    unfolding l j r [unfolded j] by (simp only: t list.map option.sel append_Nil)
  from c f q s e show ?thesis
    by (intro conjI)
qed

subsection \<open>Host set, credentials missing\<close>

text \<open>
  C10. With the SMTP host set but the user name or the password unset, \<^verbatim>\<open>add\<close> appends the
  notification and logs nothing, and a run of the handler pops every waiting notification
  without a delivery attempt: afterwards the world differs only in the emptied deque and
  the newly armed timer, so no transport call was made and no record logged.
\<close>

theorem missing_credentials_discard_silently:
  assumes "truthy (API_SMTP_HOST cfg)"
    and "\<not> (truthy (API_SMTP_USERNAME cfg) \<and> truthy (API_SMTP_PASSWORD cfg))"
  shows "add cfg to_emails subj msg w =
      w\<lparr>queue := queue w @ [\<lparr>n_to_emails = to_emails, n_subject = subj, n_message = msg\<rparr>]\<rparr> \<and>
    handler tr cfg w = w\<lparr>queue := [], timers := timers w @ [clock w + 3]\<rparr>"
proof -
  have "deliver tr cfg n v = v" for n :: notification and v
    using assms(2) by (auto simp: deliver_def credentials_def)
  then have "foldl (\<lambda>v n. deliver tr cfg n v) v ns = v" for v and ns :: "notification list"
    by (induction ns arbitrary: v) simp_all
  then have "handler tr cfg w = (w\<lparr>timers := timers w @ [clock w + 3]\<rparr>)\<lparr>queue := []\<rparr>"
    by (simp add: handler_foldl)
  also have "\<dots> = w\<lparr>queue := [], timers := timers w @ [clock w + 3]\<rparr>"
    by (cases w) simp
  finally show ?thesis
    using assms(1) by (simp add: add_def)
qed

theorem missing_credentials_discard_silently_witness:
  "truthy (API_SMTP_HOST (settings0\<lparr>API_SMTP_PASSWORD := None\<rparr>)) \<and>
   \<not> (truthy (API_SMTP_USERNAME (settings0\<lparr>API_SMTP_PASSWORD := None\<rparr>)) \<and>
      truthy (API_SMTP_PASSWORD (settings0\<lparr>API_SMTP_PASSWORD := None\<rparr>))) \<and>
   handler accepting (settings0\<lparr>API_SMTP_PASSWORD := None\<rparr>) (world0\<lparr>queue := [job1, job2]\<rparr>) =
     world0\<lparr>timers := [3]\<rparr>"
proof -
  have h: "truthy (API_SMTP_HOST (settings0\<lparr>API_SMTP_PASSWORD := None\<rparr>))"
    by (simp add: settings0_def)
  have p: "\<not> (truthy (API_SMTP_USERNAME (settings0\<lparr>API_SMTP_PASSWORD := None\<rparr>)) \<and>
      truthy (API_SMTP_PASSWORD (settings0\<lparr>API_SMTP_PASSWORD := None\<rparr>)))"
    by simp
  show ?thesis
    using h p missing_credentials_discard_silently
      [OF h p, of "[]" "[]" "[]" "world0\<lparr>queue := [job1, job2]\<rparr>" accepting]
    by (simp add: world0_def)
qed

subsection \<open>Arming the timer\<close>

text \<open>
  C3 (as the code has it). The handler arms the timer before it pops anything: the next
  run is due 3 seconds after the start of the current run, whatever time the deliveries of
  the current run take.
\<close>

lemma timers_deliver [simp]: "timers (deliver tr cfg n w) = timers w"
  by (simp add: deliver_def)

lemma timers_foldl_deliver [simp]:
  "timers (foldl (\<lambda>v n. deliver tr cfg n v) w ns) = timers w"
  by (induction ns arbitrary: w) simp_all

theorem handler_arms_timer_at_start:
  "timers (handler tr cfg w) = timers w @ [clock w + 3]"
  by (simp add: handler_foldl)

theorem handler_arms_timer_at_start_witness:
  "timers (handler accepting settings0 (world0\<lparr>queue := [job1]\<rparr>)) = [3]"
  using handler_arms_timer_at_start [of accepting settings0 "world0\<lparr>queue := [job1]\<rparr>"]
  by (simp add: world0_def)

text \<open>
  The claim as stated fails: with a relay that takes 10 seconds per call, a run that
  starts at time 0 with one notification waiting ends at time 40, and the next run is due
  at time 3, not 3 seconds after the end of this one.
\<close>

theorem rearm_after_cycle_counterexample:
  "clock (handler accepting settings0 (world0\<lparr>queue := [job1]\<rparr>)) = 40 \<and>
   timers (handler accepting settings0 (world0\<lparr>queue := [job1]\<rparr>)) = [3] \<and>
   last (timers (handler accepting settings0 (world0\<lparr>queue := [job1]\<rparr>))) \<noteq>
     clock (handler accepting settings0 (world0\<lparr>queue := [job1]\<rparr>)) + 3"
  by (simp add: handler_foldl world0_def job1_def settings0_def accepting_def deliver_def
      credentials_def notification_send_email_def try_send_def andthen_def smtp_def logger_def)

subsection \<open>Transport calls of a successful attempt\<close>






section \<open>Dedup ledger (utils/notifications.py)\<close>

subsection \<open>Storage\<close>

text \<open>A row of the \<^verbatim>\<open>NotificationsSent\<close> table, with the three columns the code sets and filters on.\<close>

record notifications_sent =
  user_id :: string
  uuid :: string
  notification_type :: string

text \<open>
  Modelled from the spec: \<^verbatim>\<open>db.session.get_session\<close> and the table behind \<^verbatim>\<open>db.models\<close> are
  not among the sources; the spec describes the ledger storage as "a transactional
  key-value/row store supporting insert and filtered lookup by the three-part composite
  key". A session works on the committed rows (oldest first) and holds the rows added but
  not yet committed; \<open>session_commit\<close> makes them durable, \<open>session_first\<close> is
  \<^verbatim>\<open>query(...).filter_by(...).first()\<close>, and leaving the \<^verbatim>\<open>with\<close> block keeps the committed rows
  only.
\<close>

record session =
  committed :: "notifications_sent list"
  pending :: "notifications_sent list"

definition get_session :: "notifications_sent list \<Rightarrow> session" where
  "get_session store = \<lparr>committed = store, pending = []\<rparr>"

definition session_add :: "notifications_sent \<Rightarrow> session \<Rightarrow> session" where
  "session_add r s = s\<lparr>pending := pending s @ [r]\<rparr>"

definition session_commit :: "session \<Rightarrow> session" where
  "session_commit s = s\<lparr>committed := committed s @ pending s, pending := []\<rparr>"

definition session_first :: "(notifications_sent \<Rightarrow> bool) \<Rightarrow> session \<Rightarrow> notifications_sent option" where
  "session_first p s = find p (committed s @ pending s)"

definition session_exit :: "session \<Rightarrow> notifications_sent list" where
  "session_exit s = committed s"

subsection \<open>\<^verbatim>\<open>notification_sent_record_add\<close> and \<^verbatim>\<open>notification_sent_record_exists\<close>\<close>

definition notification_sent_record_add ::
  "string \<Rightarrow> string \<Rightarrow> string \<Rightarrow> notifications_sent list \<Rightarrow> notifications_sent list" where
  "notification_sent_record_add uid u ntype store =
     (let s = get_session store;
          notification = \<lparr>user_id = uid, uuid = u, notification_type = ntype\<rparr>;
          s = session_add notification s;
          s = session_commit s
      in session_exit s)"

text \<open>The query returns its answer and the store as the \<^verbatim>\<open>with\<close> block leaves it.\<close>

definition notification_sent_record_exists ::
  "string \<Rightarrow> string \<Rightarrow> string \<Rightarrow> notifications_sent list \<Rightarrow> bool \<times> notifications_sent list" where
  "notification_sent_record_exists uid u ntype store =
     (let s = get_session store;
          record = session_first
            (\<lambda>r. user_id r = uid \<and> uuid r = u \<and> notification_type r = ntype) s
      in (record \<noteq> None, session_exit s))"

text \<open>A sequence of \<^verbatim>\<open>notification_sent_record_add\<close> calls, one per key triple, in list order.\<close>

definition record_all ::
  "(string \<times> string \<times> string) list \<Rightarrow> notifications_sent list \<Rightarrow> notifications_sent list" where
  "record_all ks store = foldl (\<lambda>st (uid, u, ntype). notification_sent_record_add uid u ntype st) store ks"

text \<open>The row a record call inserts for a key triple.\<close>

definition row_of :: "string \<times> string \<times> string \<Rightarrow> notifications_sent" where
  "row_of k = (case k of (uid, u, ntype) \<Rightarrow> \<lparr>user_id = uid, uuid = u, notification_type = ntype\<rparr>)"

lemma row_of_eq_iff [simp]: "row_of k = row_of k' \<longleftrightarrow> k = k'"
  by (cases k, cases k') (simp add: row_of_def)

lemma record_add_append:
  "notification_sent_record_add uid u ntype store = store @ [row_of (uid, u, ntype)]"
  by (simp add: notification_sent_record_add_def get_session_def session_add_def
      session_commit_def session_exit_def row_of_def)

lemma record_all_append: "record_all ks store = store @ map row_of ks"
  unfolding record_all_def
  by (induction ks arbitrary: store) (auto simp: record_add_append)

lemma find_matches: "find P xs \<noteq> None \<longleftrightarrow> (\<exists>x \<in> set xs. P x)"
  by (induction xs) auto

lemma record_exists_Bex:
  "fst (notification_sent_record_exists uid u ntype store) \<longleftrightarrow>
     (\<exists>r \<in> set store. user_id r = uid \<and> uuid r = u \<and> notification_type r = ntype)"
  unfolding notification_sent_record_exists_def get_session_def session_first_def
  by (simp only: Let_def fst_conv find_matches session.simps append_Nil2)

lemma record_exists_iff:
  "fst (notification_sent_record_exists uid u ntype store) \<longleftrightarrow> row_of (uid, u, ntype) \<in> set store"
proof
  assume "fst (notification_sent_record_exists uid u ntype store)"
  then obtain r where r: "r \<in> set store"
    and f: "user_id r = uid" "uuid r = u" "notification_type r = ntype"
    unfolding record_exists_Bex by blast
  have "r = row_of (uid, u, ntype)"
    using f by (cases r) (simp add: row_of_def)
  with r show "row_of (uid, u, ntype) \<in> set store"
    by simp
next
  assume "row_of (uid, u, ntype) \<in> set store"
  then show "fst (notification_sent_record_exists uid u ntype store)"
    unfolding record_exists_Bex by (rule bexI [rotated]) (simp add: row_of_def)
qed

text \<open>
  C6. The query does not change the store; it answers true exactly when the store holds
  a row with the three given values; and after any sequence of record calls on an empty
  store it answers true exactly for the triples recorded: false as long as the triple has
  not been recorded, true once it has.
\<close>

theorem exists_is_pure_read_of_recorded:
  "snd (notification_sent_record_exists uid u ntype store) = store \<and>
   (fst (notification_sent_record_exists uid u ntype store) \<longleftrightarrow>
      (\<exists>r \<in> set store. user_id r = uid \<and> uuid r = u \<and> notification_type r = ntype)) \<and>
   (fst (notification_sent_record_exists uid u ntype (record_all ks [])) \<longleftrightarrow>
      (uid, u, ntype) \<in> set ks)"
proof -
  have 1: "snd (notification_sent_record_exists uid u ntype store) = store"
    by (simp add: notification_sent_record_exists_def get_session_def session_exit_def)
  have 2: "fst (notification_sent_record_exists uid u ntype store) \<longleftrightarrow>
      (\<exists>r \<in> set store. user_id r = uid \<and> uuid r = u \<and> notification_type r = ntype)"
    by (rule record_exists_Bex)
  have 3: "fst (notification_sent_record_exists uid u ntype (record_all ks [])) \<longleftrightarrow>
      (uid, u, ntype) \<in> set ks"
    unfolding record_exists_iff record_all_append by auto
  from 1 2 3 show ?thesis by blast
qed

theorem exists_is_pure_read_of_recorded_witness:
  "\<not> fst (notification_sent_record_exists ''u1'' ''job-7'' ''deletion'' (record_all [] [])) \<and>
   fst (notification_sent_record_exists ''u1'' ''job-7'' ''deletion''
     (record_all [(''u1'', ''job-7'', ''deletion'')] [])) \<and>
   \<not> fst (notification_sent_record_exists ''u2'' ''job-7'' ''deletion''
     (record_all [(''u1'', ''job-7'', ''deletion'')] [])) \<and>
   snd (notification_sent_record_exists ''u1'' ''job-7'' ''deletion''
     (record_all [(''u1'', ''job-7'', ''deletion'')] [])) =
     [\<lparr>user_id = ''u1'', uuid = ''job-7'', notification_type = ''deletion''\<rparr>]"
  using exists_is_pure_read_of_recorded [of "''u1''" "''job-7''" "''deletion''" "[]" "[]"]
    exists_is_pure_read_of_recorded [of "''u1''" "''job-7''" "''deletion''"
      "record_all [(''u1'', ''job-7'', ''deletion'')] []" "[(''u1'', ''job-7'', ''deletion'')]"]
    exists_is_pure_read_of_recorded [of "''u2''" "''job-7''" "''deletion''" "[]"
      "[(''u1'', ''job-7'', ''deletion'')]"]
  by (simp add: record_all_append row_of_def)

text \<open>
  C8. Recording a triple twice instead of once changes the answer of no later query,
  whatever is recorded in between: the store holds a duplicate row, the reader sees the
  same answers.
\<close>

theorem record_twice_reads_as_once:
  "fst (notification_sent_record_exists uid' u' ntype'
      (record_all ks (notification_sent_record_add uid u ntype
        (notification_sent_record_add uid u ntype store)))) =
   fst (notification_sent_record_exists uid' u' ntype'
      (record_all ks (notification_sent_record_add uid u ntype store)))"
  unfolding record_exists_iff record_all_append record_add_append by auto

theorem record_twice_reads_as_once_witness:
  "fst (notification_sent_record_exists ''u1'' ''job-7'' ''deletion''
      (notification_sent_record_add ''u1'' ''job-7'' ''deletion''
        (notification_sent_record_add ''u1'' ''job-7'' ''deletion'' []))) \<and>
   length (notification_sent_record_add ''u1'' ''job-7'' ''deletion''
        (notification_sent_record_add ''u1'' ''job-7'' ''deletion'' [])) = 2"
  using record_twice_reads_as_once [of "''u1''" "''job-7''" "''deletion''" "[]"
      "''u1''" "''job-7''" "''deletion''" "[]"]
  by (simp add: record_all_def record_add_append record_exists_iff)

section \<open>Worker status (routers/healthcheck.py)\<close>

text \<open>
  A liveness snapshot is a dict, of which the status query reads the entry \<^verbatim>\<open>seen\<close> only; it
  is a map from keys to numbers. Times are seconds as real numbers. The history returned by
  \<^verbatim>\<open>health.get()\<close> is a dict from worker id to the list of the worker's snapshots, oldest
  first; its items are visited in order. The clock reading and the outcome of the database
  probe are inputs of the query.
\<close>

type_synonym snapshot = "string \<rightharpoonup> real"

record status =
  backend :: string
  database :: string
  workers :: string
  workers_online :: nat

text \<open>
  The \<^verbatim>\<open>for worker_id, stats in worker_data.items()\<close> loop with its counter. A worker
  without snapshots is skipped; \<^verbatim>\<open>stats[-1].get("seen", 0)\<close> reads the latest snapshot.
\<close>

fun count_online :: "real \<Rightarrow> (string \<times> snapshot list) list \<Rightarrow> nat \<Rightarrow> nat" where
  "count_online now [] online_count = online_count"
| "count_online now ((worker_id, stats) # rest) online_count =
     (if stats \<noteq> [] then
        (let last_seen = (case (last stats) ''seen'' of None \<Rightarrow> 0 | Some t \<Rightarrow> t) in
           if now - last_seen < 120 then count_online now rest (online_count + 1)
           else count_online now rest online_count)
      else count_online now rest online_count)"

definition get_status :: "bool \<Rightarrow> real \<Rightarrow> (string \<times> snapshot list) list \<Rightarrow> status \<times> nat" where
  "get_status db_ok now worker_data =
     (let status = \<lparr>backend = ''ok'', database = ''ok'', workers = ''error'', workers_online = 0\<rparr>;
          status = (if db_ok then status else status\<lparr>database := ''error''\<rparr>);
          online_count = count_online now worker_data 0;
          status = status\<lparr>workers_online := online_count\<rparr>;
          status = (if online_count > 0 then status\<lparr>workers := ''ok''\<rparr> else status);
          core_ok = (backend status = ''ok'' \<and> database status = ''ok'');
          status_code = (if core_ok then 200 else 503)
      in (status, status_code))"

lemma count_online_filter:
  "count_online now wd k =
     k + length (filter (\<lambda>(worker_id, stats). stats \<noteq> [] \<and>
       now - (case (last stats) ''seen'' of None \<Rightarrow> 0 | Some t \<Rightarrow> t) < 120) wd)"
  by (induction now wd k rule: count_online.induct) (simp_all add: Let_def)

text \<open>
  C4. A status query at time \<open>t\<close> counts as online exactly the workers that have a snapshot
  and whose latest snapshot has \<open>t - seen < 120\<close>, and reports the workers as "ok" when at
  least one is online and as "error" otherwise.
\<close>

theorem status_counts_workers_seen_within_120:
  "workers_online (fst (get_status db_ok t wd)) =
     length (filter (\<lambda>(worker_id, stats). stats \<noteq> [] \<and>
       t - (case (last stats) ''seen'' of None \<Rightarrow> 0 | Some s \<Rightarrow> s) < 120) wd) \<and>
   workers (fst (get_status db_ok t wd)) =
     (if \<exists>(worker_id, stats) \<in> set wd. stats \<noteq> [] \<and>
           t - (case (last stats) ''seen'' of None \<Rightarrow> 0 | Some s \<Rightarrow> s) < 120
      then ''ok'' else ''error'')"
proof -
  let ?on = "\<lambda>(worker_id :: string, stats :: snapshot list). stats \<noteq> [] \<and>
       t - (case (last stats) ''seen'' of None \<Rightarrow> 0 | Some s \<Rightarrow> s) < 120"
  have n: "count_online t wd 0 = length (filter ?on wd)"
    by (simp add: count_online_filter)
  have "0 < length (filter ?on wd) \<longleftrightarrow> (\<exists>x \<in> set wd. ?on x)"
    by (simp add: filter_empty_conv)
  then show ?thesis
    unfolding get_status_def n by (simp add: Let_def)
qed

theorem status_counts_workers_seen_within_120_witness:
  "workers_online (fst (get_status True 1000
      [(''gpu-1'', [[''seen'' \<mapsto> 500], [''seen'' \<mapsto> 881]]), (''gpu-2'', [[''seen'' \<mapsto> 879]])])) = 1 \<and>
   workers (fst (get_status True 1000
      [(''gpu-1'', [[''seen'' \<mapsto> 500], [''seen'' \<mapsto> 881]]), (''gpu-2'', [[''seen'' \<mapsto> 879]])])) = ''ok'' \<and>
   workers (fst (get_status True 1000 [(''gpu-2'', [[''seen'' \<mapsto> 879]])])) = ''error''"
  using status_counts_workers_seen_within_120 [of True 1000
      "[(''gpu-1'', [[''seen'' \<mapsto> 500], [''seen'' \<mapsto> 881]]), (''gpu-2'', [[''seen'' \<mapsto> 879]])]"]
    status_counts_workers_seen_within_120 [of True 1000 "[(''gpu-2'', [[''seen'' \<mapsto> 879]])]"]
  by simp

section \<open>Convenience senders (utils/notifications.py)\<close>

subsection \<open>\<^verbatim>\<open>str.format\<close> with keyword arguments\<close>

text \<open>
  The senders render a template with \<^verbatim>\<open>template.format(name=value, ...)\<close>, keyword arguments
  only. The formatter walks the template from left to right and yields literal text and
  replacement fields; the first problem it meets ends the walk with an exception. The
  model covers doubled braces and fields that are plain names. A field with a conversion
  (\<^verbatim>\<open>!\<close>), a format specification (\<^verbatim>\<open>:\<close>), an attribute (\<^verbatim>\<open>.\<close>) or an index (\<^verbatim>\<open>[\<close>) is
  \<open>Beyond\<close> the model, and a call that reaches one has the result \<open>Unmodelled\<close>. Characters
  are bytes; the digits of a positional field are the ASCII ones.
\<close>

datatype pyerror =
    KeyError string
  | IndexError
  | ValueError string

datatype 'a result = Returned 'a | Raised pyerror | Unmodelled

datatype item = Literal char | Field string | Bad pyerror | Beyond

fun markup :: "string \<Rightarrow> item list"
  and field :: "string \<Rightarrow> string \<Rightarrow> item list" where
  "markup [] = []"
| "markup (c # cs) =
     (if c = CHR ''{'' then
        (case cs of
           [] \<Rightarrow> [Bad (ValueError ''Single '{' encountered in format string'')]
         | d # ds \<Rightarrow> if d = CHR ''{'' then Literal (CHR ''{'') # markup ds else field [] cs)
      else if c = CHR ''}'' then
        (case cs of
           [] \<Rightarrow> [Bad (ValueError ''Single '}' encountered in format string'')]
         | d # ds \<Rightarrow>
             if d = CHR ''}'' then Literal (CHR ''}'') # markup ds
             else [Bad (ValueError ''Single '}' encountered in format string'')])
      else Literal c # markup cs)"
| "field name [] = [Bad (ValueError ''expected '}' before end of string'')]"
| "field name (c # cs) =
     (if c = CHR ''}'' then Field name # markup cs
      else if c = CHR ''{'' then [Bad (ValueError ''unexpected '{' in field name'')]
      else if c = CHR '':'' \<or> c = CHR ''!'' \<or> c = CHR ''.'' \<or> c = CHR ''['' then [Beyond]
      else field (name @ [c]) cs)"

text \<open>
  A field whose name is empty or all digits refers to a positional argument; the senders
  pass none, so it raises (\<^verbatim>\<open>IndexError\<close>). Any other name is looked up among the keyword
  arguments (\<^verbatim>\<open>KeyError\<close> when absent) and its value rendered by \<open>py_str\<close>, Python's
  \<^verbatim>\<open>format(value, "")\<close>.
\<close>

definition positional :: "string \<Rightarrow> bool" where
  "positional name \<longleftrightarrow> (\<forall>c \<in> set name. c \<in> set ''0123456789'')"

fun render :: "('v \<Rightarrow> string) \<Rightarrow> (string \<rightharpoonup> 'v) \<Rightarrow> item list \<Rightarrow> string result" where
  "render py_str kw [] = Returned []"
| "render py_str kw (Literal c # rest) =
     (case render py_str kw rest of Returned s \<Rightarrow> Returned (c # s) | r \<Rightarrow> r)"
| "render py_str kw (Field name # rest) =
     (if positional name then Raised IndexError
      else case kw name of
        None \<Rightarrow> Raised (KeyError name)
      | Some v \<Rightarrow> (case render py_str kw rest of Returned s \<Rightarrow> Returned (py_str v @ s) | r \<Rightarrow> r))"
| "render py_str kw (Bad e # rest) = Raised e"
| "render py_str kw (Beyond # rest) = Unmodelled"

definition str_format :: "('v \<Rightarrow> string) \<Rightarrow> string \<Rightarrow> (string \<times> 'v) list \<Rightarrow> string result" where
  "str_format py_str t kwargs = render py_str (map_of kwargs) (markup t)"

text \<open>The names of the replacement fields the formatter yields, as \<^verbatim>\<open>Formatter.parse\<close> lists them.\<close>

fun field_names :: "item list \<Rightarrow> string list" where
  "field_names [] = []"
| "field_names (Field name # rest) = name # field_names rest"
| "field_names (i # rest) = field_names rest"

text \<open>A template the formatter walks to the end, with named fields only.\<close>

fun plain :: "item list \<Rightarrow> bool" where
  "plain [] = True"
| "plain (Literal c # rest) = plain rest"
| "plain (Field name # rest) = (\<not> positional name \<and> plain rest)"
| "plain (i # rest) = False"

subsection \<open>The ten senders\<close>

text \<open>
  Six senders pass the subject and the message of their template to \<^verbatim>\<open>add\<close> as they are.
\<close>

definition send_email_verification :: "settings \<Rightarrow> string \<Rightarrow> world \<Rightarrow> world" where
  "send_email_verification cfg to_email w =
     add cfg [to_email] (subject (NOTIFICATION_MAIL_UPDATED cfg))
       (message (NOTIFICATION_MAIL_UPDATED cfg)) w"

definition send_transcription_finished :: "settings \<Rightarrow> string \<Rightarrow> world \<Rightarrow> world" where
  "send_transcription_finished cfg to_email w =
     add cfg [to_email] (subject (NOTIFICATION_MAIL_TRANSCRIPTION_FINISHED cfg))
       (message (NOTIFICATION_MAIL_TRANSCRIPTION_FINISHED cfg)) w"

definition send_transcription_failed :: "settings \<Rightarrow> string \<Rightarrow> world \<Rightarrow> world" where
  "send_transcription_failed cfg to_email w =
     add cfg [to_email] (subject (NOTIFICATION_MAIL_TRANSCRIPTION_FAILED cfg))
       (message (NOTIFICATION_MAIL_TRANSCRIPTION_FAILED cfg)) w"

definition send_job_deleted :: "settings \<Rightarrow> string \<Rightarrow> world \<Rightarrow> world" where
  "send_job_deleted cfg to_email w =
     add cfg [to_email] (subject (NOTIFICATION_MAIL_TRANSCRIPTION_DELETED cfg))
       (message (NOTIFICATION_MAIL_TRANSCRIPTION_DELETED cfg)) w"

definition send_job_to_be_deleted :: "settings \<Rightarrow> string \<Rightarrow> world \<Rightarrow> world" where
  "send_job_to_be_deleted cfg to_email w =
     add cfg [to_email] (subject (NOTIFICATION_MAIL_TRANSCRIPTION_TO_BE_DELETED cfg))
       (message (NOTIFICATION_MAIL_TRANSCRIPTION_TO_BE_DELETED cfg)) w"

definition notification_send_account_activated :: "settings \<Rightarrow> string \<Rightarrow> world \<Rightarrow> world" where
  "notification_send_account_activated cfg to_email w =
     add cfg [to_email] (subject (NOTIFICATION_MAIL_ACCOUNT_ACTIVATED cfg))
       (message (NOTIFICATION_MAIL_ACCOUNT_ACTIVATED cfg)) w"

text \<open>
  Four senders format the message of their template with their parameters as keyword
  arguments. The arguments of \<^verbatim>\<open>self.add(...)\<close> are evaluated before the call: when the
  formatter raises, \<^verbatim>\<open>add\<close> is not called and the exception leaves the sender with the world
  as it was. Python does not check the annotated parameter types: the values are of any
  type \<open>'v\<close>, rendered by \<open>py_str\<close>.
\<close>

definition send_new_user_created ::
  "('v \<Rightarrow> string) \<Rightarrow> settings \<Rightarrow> string \<Rightarrow> 'v \<Rightarrow> world \<Rightarrow> world result" where
  "send_new_user_created py_str cfg to_email username w =
     (case str_format py_str (message (NOTIFICATION_MAIL_NEW_USER_CREATED cfg))
             [(''username'', username)] of
        Returned m \<Rightarrow>
          Returned (add cfg [to_email] (subject (NOTIFICATION_MAIL_NEW_USER_CREATED cfg)) m w)
      | Raised e \<Rightarrow> Raised e
      | Unmodelled \<Rightarrow> Unmodelled)"

definition send_quota_alert ::
  "('v \<Rightarrow> string) \<Rightarrow> settings \<Rightarrow> string \<Rightarrow> 'v \<Rightarrow> 'v \<Rightarrow> 'v \<Rightarrow> 'v \<Rightarrow> 'v \<Rightarrow> 'v \<Rightarrow> world \<Rightarrow> world result" where
  "send_quota_alert py_str cfg to_email customer_name usage_percent blocks_purchased
       minutes_included minutes_consumed remaining_minutes w =
     (case str_format py_str (message (NOTIFICATION_MAIL_QUOTA_ALERT cfg))
             [(''customer_name'', customer_name),
              (''usage_percent'', usage_percent),
              (''blocks_purchased'', blocks_purchased),
              (''minutes_included'', minutes_included),
              (''minutes_consumed'', minutes_consumed),
              (''remaining_minutes'', remaining_minutes)] of
        Returned m \<Rightarrow> Returned (add cfg [to_email] (subject (NOTIFICATION_MAIL_QUOTA_ALERT cfg)) m w)
      | Raised e \<Rightarrow> Raised e
      | Unmodelled \<Rightarrow> Unmodelled)"

definition send_group_quota_alert ::
  "('v \<Rightarrow> string) \<Rightarrow> settings \<Rightarrow> string \<Rightarrow> 'v \<Rightarrow> 'v \<Rightarrow> 'v \<Rightarrow> 'v \<Rightarrow> 'v \<Rightarrow> world \<Rightarrow> world result" where
  "send_group_quota_alert py_str cfg to_email group_name usage_percent quota_minutes
       used_minutes remaining_minutes w =
     (case str_format py_str (message (NOTIFICATION_MAIL_GROUP_QUOTA_ALERT cfg))
             [(''group_name'', group_name),
              (''usage_percent'', usage_percent),
              (''quota_minutes'', quota_minutes),
              (''used_minutes'', used_minutes),
              (''remaining_minutes'', remaining_minutes)] of
        Returned m \<Rightarrow>
          Returned (add cfg [to_email] (subject (NOTIFICATION_MAIL_GROUP_QUOTA_ALERT cfg)) m w)
      | Raised e \<Rightarrow> Raised e
      | Unmodelled \<Rightarrow> Unmodelled)"

definition send_weekly_usage_report ::
  "('v \<Rightarrow> string) \<Rightarrow> settings \<Rightarrow> string \<Rightarrow> 'v \<Rightarrow> 'v \<Rightarrow> 'v \<Rightarrow> 'v \<Rightarrow> 'v \<Rightarrow> 'v \<Rightarrow> 'v \<Rightarrow> 'v \<Rightarrow> 'v \<Rightarrow> 'v
     \<Rightarrow> world \<Rightarrow> world result" where
  "send_weekly_usage_report py_str cfg to_email customer_name total_users transcribed_files
       transcribed_minutes transcribed_minutes_external blocks_purchased blocks_consumed
       minutes_included remaining_minutes overage_minutes w =
     (case str_format py_str (message (NOTIFICATION_MAIL_WEEKLY_USAGE_REPORT cfg))
             [(''customer_name'', customer_name),
              (''total_users'', total_users),
              (''transcribed_files'', transcribed_files),
              (''transcribed_minutes'', transcribed_minutes),
              (''transcribed_minutes_external'', transcribed_minutes_external),
              (''blocks_purchased'', blocks_purchased),
              (''blocks_consumed'', blocks_consumed),
              (''minutes_included'', minutes_included),
              (''remaining_minutes'', remaining_minutes),
              (''overage_minutes'', overage_minutes)] of
        Returned m \<Rightarrow>
          Returned (add cfg [to_email] (subject (NOTIFICATION_MAIL_WEEKLY_USAGE_REPORT cfg)) m w)
      | Raised e \<Rightarrow> Raised e
      | Unmodelled \<Rightarrow> Unmodelled)"

subsection \<open>Missing and supplied parameters\<close>

lemma field_names_iff: "n \<in> set (field_names is) \<longleftrightarrow> Field n \<in> set is"
  by (induction "is" rule: field_names.induct) auto

text \<open>
  The formatter's walk ends at the first problem, so every field it yields is looked up:
  a field without a value raises.
\<close>

lemma markup_missing_raises:
  "Field n \<in> set (markup t) \<Longrightarrow> kw n = None \<Longrightarrow> \<exists>e. render py_str kw (markup t) = Raised e"
  "Field n \<in> set (field nm t) \<Longrightarrow> kw n = None \<Longrightarrow> \<exists>e. render py_str kw (field nm t) = Raised e"
proof (induction t and nm t rule: markup_field.induct)
  case 1
  then show ?case by simp
next
  case (2 c cs)
  then show ?case
    by (cases cs) (auto split: if_splits)
next
  case (3 name)
  then show ?case by simp
next
  case (4 name c cs)
  then show ?case
    by (auto split: if_splits option.splits)
qed

lemma str_format_missing_raises:
  assumes "n \<in> set (field_names (markup t))" and "n \<notin> fst ` set kwargs"
  shows "\<exists>e. str_format py_str t kwargs = Raised e"
proof -
  have "map_of kwargs n = None"
    using assms(2) by (simp add: map_of_eq_None_iff)
  with assms(1) show ?thesis
    unfolding str_format_def field_names_iff by (rule markup_missing_raises(1))
qed

lemma render_contains:
  assumes "render py_str kw is = Returned s" and "Field n \<in> set is"
  shows "\<exists>v. kw n = Some v \<and> sublist (py_str v) s"
  using assms
proof (induction "is" arbitrary: s)
  case Nil
  then show ?case by simp
next
  case (Cons i rest)
  show ?case
  proof (cases i)
    case (Literal c)
    with Cons.prems obtain s' where s': "render py_str kw rest = Returned s'" "s = c # s'"
      by (auto split: result.splits)
    from Cons.prems(2) Literal have "Field n \<in> set rest" by simp
    from Cons.IH [OF s'(1) this] show ?thesis
      unfolding s'(2) by (auto simp: sublist_Cons_right)
  next
    case (Field name)
    with Cons.prems obtain v s' where v: "kw name = Some v"
      and s': "render py_str kw rest = Returned s'" "s = py_str v @ s'"
      by (auto split: if_splits option.splits result.splits)
    show ?thesis
    proof (cases "n = name")
      case True
      then show ?thesis
        using v unfolding s'(2) by simp
    next
      case False
      with Cons.prems(2) Field have "Field n \<in> set rest" by simp
      from Cons.IH [OF s'(1) this] show ?thesis
        unfolding s'(2) by (auto simp: sublist_append)
    qed
  next
    case (Bad e)
    with Cons.prems show ?thesis by simp
  next
    case Beyond
    with Cons.prems show ?thesis by simp
  qed
qed

lemma render_plain_returns:
  assumes "plain is" and "\<And>n. Field n \<in> set is \<Longrightarrow> kw n \<noteq> None"
  shows "\<exists>s. render py_str kw is = Returned s"
  using assms
proof (induction "is" rule: plain.induct)
  case 1
  then show ?case by simp
next
  case (2 c rest)
  then show ?case by (auto split: result.splits)
next
  case (3 name rest)
  then obtain v where v: "kw name = Some v"
    by fastforce
  from 3 obtain s where "render py_str kw rest = Returned s"
    by auto
  with 3(2) v show ?case by simp
qed simp_all

lemma str_format_supplied_renders:
  assumes "plain (markup t)" and "set (field_names (markup t)) \<subseteq> fst ` set kwargs"
  shows "\<exists>m. str_format py_str t kwargs = Returned m \<and>
    (\<forall>n \<in> set (field_names (markup t)). \<exists>v. map_of kwargs n = Some v \<and> sublist (py_str v) m)"
proof -
  have "map_of kwargs n \<noteq> None" if "Field n \<in> set (markup t)" for n
    using that assms(2) unfolding field_names_iff [symmetric]
    by (auto simp: map_of_eq_None_iff)
  from render_plain_returns [where kw = "map_of kwargs" and py_str = py_str, OF assms(1) this]
  obtain m where m: "render py_str (map_of kwargs) (markup t) = Returned m"
    by blast
  have "\<exists>v. map_of kwargs n = Some v \<and> sublist (py_str v) m"
    if "n \<in> set (field_names (markup t))" for n
    using render_contains [OF m] that by (simp add: field_names_iff)
  with m show ?thesis
    unfolding str_format_def by blast
qed

subsection \<open>Senders and template parameters\<close>

text \<open>
  What the spec asks of a sender's outcome \<open>r\<close>, for its template and the parameters
  supplied to it: if the message of the template has a field that is not supplied, the call
  raises; if the template is walked to its end and every field is supplied, the call
  returns after one \<^verbatim>\<open>add\<close> of a rendered message that contains the text of the value of
  every field of the template.
\<close>

definition raises_or_renders ::
  "('v \<Rightarrow> string) \<Rightarrow> settings \<Rightarrow> string \<Rightarrow> template \<Rightarrow> (string \<times> 'v) list \<Rightarrow> world
     \<Rightarrow> world result \<Rightarrow> bool" where
  "raises_or_renders py_str cfg to_email tpl supplied w r \<longleftrightarrow>
     ((\<exists>n \<in> set (field_names (markup (message tpl))). n \<notin> fst ` set supplied) \<longrightarrow>
        (\<exists>e. r = Raised e)) \<and>
     (plain (markup (message tpl)) \<and>
      set (field_names (markup (message tpl))) \<subseteq> fst ` set supplied \<longrightarrow>
        (\<exists>m. r = Returned (add cfg [to_email] (subject tpl) m w) \<and>
           (\<forall>n \<in> set (field_names (markup (message tpl))).
              \<exists>v. map_of supplied n = Some v \<and> sublist (py_str v) m)))"

lemma formatted_raises_or_renders:
  "raises_or_renders py_str cfg to_email tpl kwargs w
     (case str_format py_str (message tpl) kwargs of
        Returned m \<Rightarrow> Returned (add cfg [to_email] (subject tpl) m w)
      | Raised e \<Rightarrow> Raised e
      | Unmodelled \<Rightarrow> Unmodelled)"
  unfolding raises_or_renders_def
proof (intro conjI impI)
  assume "\<exists>n \<in> set (field_names (markup (message tpl))). n \<notin> fst ` set kwargs"
  then obtain e where "str_format py_str (message tpl) kwargs = Raised e"
    using str_format_missing_raises by blast
  then show "\<exists>e. (case str_format py_str (message tpl) kwargs of
        Returned m \<Rightarrow> Returned (add cfg [to_email] (subject tpl) m w)
      | Raised e \<Rightarrow> Raised e
      | Unmodelled \<Rightarrow> Unmodelled) = Raised e"
    by simp
next
  assume "plain (markup (message tpl)) \<and>
    set (field_names (markup (message tpl))) \<subseteq> fst ` set kwargs"
  then obtain m where m: "str_format py_str (message tpl) kwargs = Returned m"
    "\<forall>n \<in> set (field_names (markup (message tpl))).
       \<exists>v. map_of kwargs n = Some v \<and> sublist (py_str v) m"
    using str_format_supplied_renders [of "message tpl" kwargs py_str] by blast
  show "\<exists>m. (case str_format py_str (message tpl) kwargs of
        Returned m \<Rightarrow> Returned (add cfg [to_email] (subject tpl) m w)
      | Raised e \<Rightarrow> Raised e
      | Unmodelled \<Rightarrow> Unmodelled) = Returned (add cfg [to_email] (subject tpl) m w) \<and>
      (\<forall>n \<in> set (field_names (markup (message tpl))).
        \<exists>v. map_of kwargs n = Some v \<and> sublist (py_str v) m)"
    by (rule exI [of _ m]) (simp add: m)
qed

text \<open>
  C9 (as the code has it). The four senders that format their template
  (\<^verbatim>\<open>send_new_user_created\<close>, \<^verbatim>\<open>send_quota_alert\<close>, \<^verbatim>\<open>send_group_quota_alert\<close>,
  \<^verbatim>\<open>send_weekly_usage_report\<close>) raise, before \<^verbatim>\<open>add\<close> is reached, when the message template has
  a field that is not one of the sender's parameters, and otherwise enqueue a rendered
  message that contains the text of the value of every field of the template. The six
  other senders do not format: they enqueue the message of their template as it is.
\<close>

theorem formatting_senders_raise_or_render_others_enqueue_verbatim:
  "raises_or_renders py_str cfg to_email (NOTIFICATION_MAIL_NEW_USER_CREATED cfg)
     [(''username'', username)] w
     (send_new_user_created py_str cfg to_email username w) \<and>
   raises_or_renders py_str cfg to_email (NOTIFICATION_MAIL_QUOTA_ALERT cfg)
     [(''customer_name'', a1), (''usage_percent'', a2), (''blocks_purchased'', a3),
      (''minutes_included'', a4), (''minutes_consumed'', a5), (''remaining_minutes'', a6)] w
     (send_quota_alert py_str cfg to_email a1 a2 a3 a4 a5 a6 w) \<and>
   raises_or_renders py_str cfg to_email (NOTIFICATION_MAIL_GROUP_QUOTA_ALERT cfg)
     [(''group_name'', g1), (''usage_percent'', g2), (''quota_minutes'', g3),
      (''used_minutes'', g4), (''remaining_minutes'', g5)] w
     (send_group_quota_alert py_str cfg to_email g1 g2 g3 g4 g5 w) \<and>
   raises_or_renders py_str cfg to_email (NOTIFICATION_MAIL_WEEKLY_USAGE_REPORT cfg)
     [(''customer_name'', b1), (''total_users'', b2), (''transcribed_files'', b3),
      (''transcribed_minutes'', b4), (''transcribed_minutes_external'', b5),
      (''blocks_purchased'', b6), (''blocks_consumed'', b7), (''minutes_included'', b8),
      (''remaining_minutes'', b9), (''overage_minutes'', b10)] w
     (send_weekly_usage_report py_str cfg to_email b1 b2 b3 b4 b5 b6 b7 b8 b9 b10 w) \<and>
   send_email_verification cfg to_email w =
     add cfg [to_email] (subject (NOTIFICATION_MAIL_UPDATED cfg))
       (message (NOTIFICATION_MAIL_UPDATED cfg)) w \<and>
   send_transcription_finished cfg to_email w =
     add cfg [to_email] (subject (NOTIFICATION_MAIL_TRANSCRIPTION_FINISHED cfg))
       (message (NOTIFICATION_MAIL_TRANSCRIPTION_FINISHED cfg)) w \<and>
   send_transcription_failed cfg to_email w =
     add cfg [to_email] (subject (NOTIFICATION_MAIL_TRANSCRIPTION_FAILED cfg))
       (message (NOTIFICATION_MAIL_TRANSCRIPTION_FAILED cfg)) w \<and>
   send_job_deleted cfg to_email w =
     add cfg [to_email] (subject (NOTIFICATION_MAIL_TRANSCRIPTION_DELETED cfg))
       (message (NOTIFICATION_MAIL_TRANSCRIPTION_DELETED cfg)) w \<and>
   send_job_to_be_deleted cfg to_email w =
     add cfg [to_email] (subject (NOTIFICATION_MAIL_TRANSCRIPTION_TO_BE_DELETED cfg))
       (message (NOTIFICATION_MAIL_TRANSCRIPTION_TO_BE_DELETED cfg)) w \<and>
   notification_send_account_activated cfg to_email w =
     add cfg [to_email] (subject (NOTIFICATION_MAIL_ACCOUNT_ACTIVATED cfg))
       (message (NOTIFICATION_MAIL_ACCOUNT_ACTIVATED cfg)) w"
  unfolding send_new_user_created_def send_quota_alert_def send_group_quota_alert_def
    send_weekly_usage_report_def send_email_verification_def send_transcription_finished_def
    send_transcription_failed_def send_job_deleted_def send_job_to_be_deleted_def
    notification_send_account_activated_def
  by (intro conjI formatted_raises_or_renders refl)

text \<open>
  The claim as stated fails for the senders that do not format: when the template of the
  email-verification notice has a field, the sender raises nothing and enqueues the
  message with the field left in it.
\<close>

theorem unformatted_sender_counterexample:
  "''username'' \<in> set (field_names (markup (message (NOTIFICATION_MAIL_UPDATED
      (settings0\<lparr>NOTIFICATION_MAIL_UPDATED :=
         \<lparr>subject = ''Verify'', message = ''Hello {username}''\<rparr>\<rparr>))))) \<and>
   send_email_verification
     (settings0\<lparr>NOTIFICATION_MAIL_UPDATED := \<lparr>subject = ''Verify'', message = ''Hello {username}''\<rparr>\<rparr>)
     ''ada@example.org'' world0 =
   world0\<lparr>queue :=
     [\<lparr>n_to_emails = [''ada@example.org''], n_subject = ''Verify'',
       n_message = ''Hello {username}''\<rparr>]\<rparr>"
  by (simp add: send_email_verification_def add_def settings0_def world0_def)

text \<open>Templates that refer to a parameter \<^verbatim>\<open>plan\<close>, which no sender passes.\<close>

definition settings1 :: settings where
  "settings1 = settings0
     \<lparr>NOTIFICATION_MAIL_NEW_USER_CREATED :=
        \<lparr>subject = ''New user'', message = ''{username} on plan {plan}''\<rparr>,
      NOTIFICATION_MAIL_QUOTA_ALERT :=
        \<lparr>subject = ''Quota alert'', message = ''{customer_name} on plan {plan}''\<rparr>,
      NOTIFICATION_MAIL_GROUP_QUOTA_ALERT :=
        \<lparr>subject = ''Group quota alert'', message = ''{group_name} on plan {plan}''\<rparr>,
      NOTIFICATION_MAIL_WEEKLY_USAGE_REPORT :=
        \<lparr>subject = ''Weekly report'', message = ''{customer_name} on plan {plan}''\<rparr>\<rparr>"

theorem formatting_senders_raise_or_render_others_enqueue_verbatim_witness:
  "(plain (markup (message (NOTIFICATION_MAIL_NEW_USER_CREATED settings0))) \<and>
    set (field_names (markup (message (NOTIFICATION_MAIL_NEW_USER_CREATED settings0))))
      \<subseteq> fst ` set [(''username'', ''ada'')] \<and>
    send_new_user_created (\<lambda>s. s) settings0 ''admin@example.org'' ''ada'' world0 =
      Returned (world0\<lparr>queue :=
        [\<lparr>n_to_emails = [''admin@example.org''], n_subject = ''New user'',
          n_message = ''New user ada''\<rparr>]\<rparr>)) \<and>
   (''plan'' \<in> set (field_names (markup (message (NOTIFICATION_MAIL_NEW_USER_CREATED settings1)))) \<and>
    ''plan'' \<notin> fst ` set [(''username'', ''ada'')] \<and>
    send_new_user_created (\<lambda>s. s) settings1 ''admin@example.org'' ''ada'' world0 =
      Raised (KeyError ''plan'')) \<and>
   (plain (markup (message (NOTIFICATION_MAIL_QUOTA_ALERT settings0))) \<and>
    set (field_names (markup (message (NOTIFICATION_MAIL_QUOTA_ALERT settings0))))
      \<subseteq> fst ` set [(''customer_name'', ''ACME''), (''usage_percent'', ''96''),
          (''blocks_purchased'', ''10''), (''minutes_included'', ''40000''),
          (''minutes_consumed'', ''38400''), (''remaining_minutes'', ''1600'')] \<and>
    send_quota_alert (\<lambda>s. s) settings0 ''admin@example.org''
        ''ACME'' ''96'' ''10'' ''40000'' ''38400'' ''1600'' world0 =
      Returned (world0\<lparr>queue :=
        [\<lparr>n_to_emails = [''admin@example.org''], n_subject = ''Quota alert'',
          n_message = ''ACME: 96% used, 10 blocks, 38400/40000 min, 1600 left''\<rparr>]\<rparr>)) \<and>
   (''plan'' \<in> set (field_names (markup (message (NOTIFICATION_MAIL_QUOTA_ALERT settings1)))) \<and>
    ''plan'' \<notin> fst ` set [(''customer_name'', ''ACME''), (''usage_percent'', ''96''),
          (''blocks_purchased'', ''10''), (''minutes_included'', ''40000''),
          (''minutes_consumed'', ''38400''), (''remaining_minutes'', ''1600'')] \<and>
    send_quota_alert (\<lambda>s. s) settings1 ''admin@example.org''
        ''ACME'' ''96'' ''10'' ''40000'' ''38400'' ''1600'' world0 = Raised (KeyError ''plan'')) \<and>
   (plain (markup (message (NOTIFICATION_MAIL_GROUP_QUOTA_ALERT settings0))) \<and>
    set (field_names (markup (message (NOTIFICATION_MAIL_GROUP_QUOTA_ALERT settings0))))
      \<subseteq> fst ` set [(''group_name'', ''Lab''), (''usage_percent'', ''80''),
          (''quota_minutes'', ''500''), (''used_minutes'', ''400''),
          (''remaining_minutes'', ''100'')] \<and>
    send_group_quota_alert (\<lambda>s. s) settings0 ''admin@example.org''
        ''Lab'' ''80'' ''500'' ''400'' ''100'' world0 =
      Returned (world0\<lparr>queue :=
        [\<lparr>n_to_emails = [''admin@example.org''], n_subject = ''Group quota alert'',
          n_message = ''Lab: 80% of 500, 400 used, 100 left''\<rparr>]\<rparr>)) \<and>
   (''plan'' \<in> set (field_names (markup (message (NOTIFICATION_MAIL_GROUP_QUOTA_ALERT settings1)))) \<and>
    ''plan'' \<notin> fst ` set [(''group_name'', ''Lab''), (''usage_percent'', ''80''),
          (''quota_minutes'', ''500''), (''used_minutes'', ''400''),
          (''remaining_minutes'', ''100'')] \<and>
    send_group_quota_alert (\<lambda>s. s) settings1 ''admin@example.org''
        ''Lab'' ''80'' ''500'' ''400'' ''100'' world0 = Raised (KeyError ''plan'')) \<and>
   (plain (markup (message (NOTIFICATION_MAIL_WEEKLY_USAGE_REPORT settings0))) \<and>
    set (field_names (markup (message (NOTIFICATION_MAIL_WEEKLY_USAGE_REPORT settings0))))
      \<subseteq> fst ` set [(''customer_name'', ''ACME''), (''total_users'', ''12''),
          (''transcribed_files'', ''7''), (''transcribed_minutes'', ''300''),
          (''transcribed_minutes_external'', ''20''), (''blocks_purchased'', ''10''),
          (''blocks_consumed'', ''2.5''), (''minutes_included'', ''40000''),
          (''remaining_minutes'', ''1600''), (''overage_minutes'', ''0'')] \<and>
    send_weekly_usage_report (\<lambda>s. s) settings0 ''admin@example.org''
        ''ACME'' ''12'' ''7'' ''300'' ''20'' ''10'' ''2.5'' ''40000'' ''1600'' ''0'' world0 =
      Returned (world0\<lparr>queue :=
        [\<lparr>n_to_emails = [''admin@example.org''], n_subject = ''Weekly report'',
          n_message = ''ACME: 12 users, 7 files, 300+20 min, 2.5/10 blocks, 40000 incl, 1600 left, 0 over''\<rparr>]\<rparr>)) \<and>
   (''plan'' \<in> set (field_names (markup (message (NOTIFICATION_MAIL_WEEKLY_USAGE_REPORT settings1)))) \<and>
    ''plan'' \<notin> fst ` set [(''customer_name'', ''ACME''), (''total_users'', ''12''),
          (''transcribed_files'', ''7''), (''transcribed_minutes'', ''300''),
          (''transcribed_minutes_external'', ''20''), (''blocks_purchased'', ''10''),
          (''blocks_consumed'', ''2.5''), (''minutes_included'', ''40000''),
          (''remaining_minutes'', ''1600''), (''overage_minutes'', ''0'')] \<and>
    send_weekly_usage_report (\<lambda>s. s) settings1 ''admin@example.org''
        ''ACME'' ''12'' ''7'' ''300'' ''20'' ''10'' ''2.5'' ''40000'' ''1600'' ''0'' world0 =
      Raised (KeyError ''plan''))"
proof -
  note c0 = formatting_senders_raise_or_render_others_enqueue_verbatim
      [where py_str = "\<lambda>s. s" and cfg = settings0 and to_email = "''admin@example.org''"
        and w = world0 and username = "''ada''"
        and ?a1.0 = "''ACME''" and ?a2.0 = "''96''" and ?a3.0 = "''10''" and ?a4.0 = "''40000''"
        and ?a5.0 = "''38400''" and ?a6.0 = "''1600''"
        and ?g1.0 = "''Lab''" and ?g2.0 = "''80''" and ?g3.0 = "''500''" and ?g4.0 = "''400''"
        and ?g5.0 = "''100''"
        and ?b1.0 = "''ACME''" and ?b2.0 = "''12''" and ?b3.0 = "''7''" and ?b4.0 = "''300''"
        and ?b5.0 = "''20''" and ?b6.0 = "''10''" and ?b7.0 = "''2.5''" and ?b8.0 = "''40000''"
        and ?b9.0 = "''1600''" and ?b10.0 = "''0''"]
  have n0p: "plain (markup (message (NOTIFICATION_MAIL_NEW_USER_CREATED settings0)))"
    by (simp add: settings0_def positional_def)
  have n0s: "set (field_names (markup (message (NOTIFICATION_MAIL_NEW_USER_CREATED settings0))))
      \<subseteq> fst ` set [(''username'', ''ada'')]"
    by (simp add: settings0_def)
  have n0r: "send_new_user_created (\<lambda>s. s) settings0 ''admin@example.org''
        ''ada'' world0 =
      Returned (world0\<lparr>queue :=
        [\<lparr>n_to_emails = [''admin@example.org''], n_subject = ''New user'',
          n_message = ''New user ada''\<rparr>]\<rparr>)"
    by (simp add: send_new_user_created_def str_format_def settings0_def positional_def add_def world0_def)
  have n1m: "''plan'' \<in> set (field_names (markup (message (NOTIFICATION_MAIL_NEW_USER_CREATED settings1))))"
    by (simp add: settings1_def settings0_def)
  have n1n: "''plan'' \<notin> fst ` set [(''username'', ''ada'')]"
    by simp
  have n1r: "send_new_user_created (\<lambda>s. s) settings1 ''admin@example.org''
        ''ada'' world0 =
      Raised (KeyError ''plan'')"
    by (simp add: send_new_user_created_def str_format_def settings1_def settings0_def positional_def)
  have q0p: "plain (markup (message (NOTIFICATION_MAIL_QUOTA_ALERT settings0)))"
    by (simp add: settings0_def positional_def)
  have q0s: "set (field_names (markup (message (NOTIFICATION_MAIL_QUOTA_ALERT settings0))))
      \<subseteq> fst ` set [(''customer_name'', ''ACME''), (''usage_percent'', ''96''),
          (''blocks_purchased'', ''10''), (''minutes_included'', ''40000''),
          (''minutes_consumed'', ''38400''), (''remaining_minutes'', ''1600'')]"
    by (simp add: settings0_def)
  have q0r: "send_quota_alert (\<lambda>s. s) settings0 ''admin@example.org''
        ''ACME'' ''96'' ''10'' ''40000'' ''38400'' ''1600'' world0 =
      Returned (world0\<lparr>queue :=
        [\<lparr>n_to_emails = [''admin@example.org''], n_subject = ''Quota alert'',
          n_message = ''ACME: 96% used, 10 blocks, 38400/40000 min, 1600 left''\<rparr>]\<rparr>)"
    by (simp add: send_quota_alert_def str_format_def settings0_def positional_def add_def world0_def)
  have q1m: "''plan'' \<in> set (field_names (markup (message (NOTIFICATION_MAIL_QUOTA_ALERT settings1))))"
    by (simp add: settings1_def settings0_def)
  have q1n: "''plan'' \<notin> fst ` set [(''customer_name'', ''ACME''), (''usage_percent'', ''96''),
          (''blocks_purchased'', ''10''), (''minutes_included'', ''40000''),
          (''minutes_consumed'', ''38400''), (''remaining_minutes'', ''1600'')]"
    by simp
  have q1r: "send_quota_alert (\<lambda>s. s) settings1 ''admin@example.org''
        ''ACME'' ''96'' ''10'' ''40000'' ''38400'' ''1600'' world0 =
      Raised (KeyError ''plan'')"
    by (simp add: send_quota_alert_def str_format_def settings1_def settings0_def positional_def)
  have g0p: "plain (markup (message (NOTIFICATION_MAIL_GROUP_QUOTA_ALERT settings0)))"
    by (simp add: settings0_def positional_def)
  have g0s: "set (field_names (markup (message (NOTIFICATION_MAIL_GROUP_QUOTA_ALERT settings0))))
      \<subseteq> fst ` set [(''group_name'', ''Lab''), (''usage_percent'', ''80''),
          (''quota_minutes'', ''500''), (''used_minutes'', ''400''),
          (''remaining_minutes'', ''100'')]"
    by (simp add: settings0_def)
  have g0r: "send_group_quota_alert (\<lambda>s. s) settings0 ''admin@example.org''
        ''Lab'' ''80'' ''500'' ''400'' ''100'' world0 =
      Returned (world0\<lparr>queue :=
        [\<lparr>n_to_emails = [''admin@example.org''], n_subject = ''Group quota alert'',
          n_message = ''Lab: 80% of 500, 400 used, 100 left''\<rparr>]\<rparr>)"
    by (simp add: send_group_quota_alert_def str_format_def settings0_def positional_def add_def world0_def)
  have g1m: "''plan'' \<in> set (field_names (markup (message (NOTIFICATION_MAIL_GROUP_QUOTA_ALERT settings1))))"
    by (simp add: settings1_def settings0_def)
  have g1n: "''plan'' \<notin> fst ` set [(''group_name'', ''Lab''), (''usage_percent'', ''80''),
          (''quota_minutes'', ''500''), (''used_minutes'', ''400''),
          (''remaining_minutes'', ''100'')]"
    by simp
  have g1r: "send_group_quota_alert (\<lambda>s. s) settings1 ''admin@example.org''
        ''Lab'' ''80'' ''500'' ''400'' ''100'' world0 =
      Raised (KeyError ''plan'')"
    by (simp add: send_group_quota_alert_def str_format_def settings1_def settings0_def positional_def)
  have b0p: "plain (markup (message (NOTIFICATION_MAIL_WEEKLY_USAGE_REPORT settings0)))"
    by (simp add: settings0_def positional_def)
  have b0s: "set (field_names (markup (message (NOTIFICATION_MAIL_WEEKLY_USAGE_REPORT settings0))))
      \<subseteq> fst ` set [(''customer_name'', ''ACME''), (''total_users'', ''12''),
          (''transcribed_files'', ''7''), (''transcribed_minutes'', ''300''),
          (''transcribed_minutes_external'', ''20''), (''blocks_purchased'', ''10''),
          (''blocks_consumed'', ''2.5''), (''minutes_included'', ''40000''),
          (''remaining_minutes'', ''1600''), (''overage_minutes'', ''0'')]"
    by (simp add: settings0_def)
  have b0r: "send_weekly_usage_report (\<lambda>s. s) settings0 ''admin@example.org''
        ''ACME'' ''12'' ''7'' ''300'' ''20'' ''10'' ''2.5'' ''40000'' ''1600'' ''0'' world0 =
      Returned (world0\<lparr>queue :=
        [\<lparr>n_to_emails = [''admin@example.org''], n_subject = ''Weekly report'',
          n_message = ''ACME: 12 users, 7 files, 300+20 min, 2.5/10 blocks, 40000 incl, 1600 left, 0 over''\<rparr>]\<rparr>)"
    by (simp add: send_weekly_usage_report_def str_format_def settings0_def positional_def add_def world0_def)
  have b1m: "''plan'' \<in> set (field_names (markup (message (NOTIFICATION_MAIL_WEEKLY_USAGE_REPORT settings1))))"
    by (simp add: settings1_def settings0_def)
  have b1n: "''plan'' \<notin> fst ` set [(''customer_name'', ''ACME''), (''total_users'', ''12''),
          (''transcribed_files'', ''7''), (''transcribed_minutes'', ''300''),
          (''transcribed_minutes_external'', ''20''), (''blocks_purchased'', ''10''),
          (''blocks_consumed'', ''2.5''), (''minutes_included'', ''40000''),
          (''remaining_minutes'', ''1600''), (''overage_minutes'', ''0'')]"
    by simp
  have b1r: "send_weekly_usage_report (\<lambda>s. s) settings1 ''admin@example.org''
        ''ACME'' ''12'' ''7'' ''300'' ''20'' ''10'' ''2.5'' ''40000'' ''1600'' ''0'' world0 =
      Raised (KeyError ''plan'')"
    by (simp add: send_weekly_usage_report_def str_format_def settings1_def settings0_def positional_def)
  show ?thesis
    using c0 by (intro conjI n0p n0s n0r n1m n1n n1r q0p q0s q0r q1m q1n q1r g0p g0s g0r g1m g1n g1r b0p b0s b0r b1m b1n b1r)
qed

end
